theory Spec2Isabelle
  imports Main "HOL-Library.Multiset" "HOL-Library.Char_ord" "HOL-Library.List_Lexorder"
    "HOL-Library.Product_Lexorder"
begin

section \<open>Go standard library: the string functions the program calls\<close>

text \<open>
  A Go \<^verbatim>\<open>string\<close> is a sequence of bytes; so is \<^typ>\<open>string\<close> here.
  \<^verbatim>\<open>strings.TrimPrefix(s, p)\<close> removes \<open>p\<close> once from the front of \<open>s\<close> when \<open>s\<close>
  starts with it and returns \<open>s\<close> unchanged otherwise.
\<close>

definition TrimPrefix :: "string \<Rightarrow> string \<Rightarrow> string" where
  "TrimPrefix s p = (if take (length p) s = p then drop (length p) s else s)"

text \<open>
  \<^verbatim>\<open>strings.Split(s, sep)\<close> for a separator of one byte, the only kind the program
  uses (\<^verbatim>\<open>"-"\<close> and \<^verbatim>\<open>"."\<close>): the pieces between the occurrences of the separator,
  empty pieces included; the result is never empty.
\<close>

fun Split :: "string \<Rightarrow> char \<Rightarrow> string list" where
  "Split [] sep = [[]]"
| "Split (c # cs) sep =
     (if c = sep then [] # Split cs sep
      else (c # hd (Split cs sep)) # tl (Split cs sep))"

section \<open>The semantic-version library the program is written against\<close>

text \<open>
  The program imports \<^verbatim>\<open>github.com/Masterminds/semver/v3\<close> and Go's \<^verbatim>\<open>sort\<close>
  package; neither is part of the repository. The functions of the program take the
  operations they call as a parameter \<open>L\<close>:
  \<^item> \<open>NewVersion L s\<close>: \<^verbatim>\<open>semver.NewVersion(s)\<close>, \<open>None\<close> for an error;
  \<^item> \<open>String L v\<close>: \<^verbatim>\<open>v.String()\<close>;
  \<^item> \<open>Compare L v w\<close>: \<^verbatim>\<open>v.Compare(w)\<close>, negative, zero or positive;
  \<^item> \<open>NewConstraint L s\<close>: \<^verbatim>\<open>semver.NewConstraint(s)\<close>, \<open>None\<close> for an error;
  \<^item> \<open>Check L c v\<close>: \<^verbatim>\<open>c.Check(v)\<close>;
  \<^item> \<open>Sort L lt xs\<close>: \<^verbatim>\<open>sort.Sort\<close> on a collection whose \<^verbatim>\<open>Less(i, j)\<close> is
    \<open>lt (xs ! i) (xs ! j)\<close>.
\<close>

record ('v, 'c) semver =
  NewVersion :: "string \<Rightarrow> 'v option"
  String :: "'v \<Rightarrow> string"
  Compare :: "'v \<Rightarrow> 'v \<Rightarrow> int"
  NewConstraint :: "string \<Rightarrow> 'c option"
  Check :: "'c \<Rightarrow> 'v \<Rightarrow> bool"
  Sort :: "('v \<Rightarrow> 'v \<Rightarrow> bool) \<Rightarrow> 'v list \<Rightarrow> 'v list"

text \<open>
  The library defines \<^verbatim>\<open>LessThan\<close>, \<^verbatim>\<open>GreaterThan\<close> and \<^verbatim>\<open>Equal\<close> from
  \<^verbatim>\<open>Compare\<close>.
\<close>

definition LessThan :: "('v, 'c) semver \<Rightarrow> 'v \<Rightarrow> 'v \<Rightarrow> bool" where
  "LessThan L v w = (Compare L v w < 0)"

definition GreaterThan :: "('v, 'c) semver \<Rightarrow> 'v \<Rightarrow> 'v \<Rightarrow> bool" where
  "GreaterThan L v w = (Compare L v w > 0)"

definition Equal :: "('v, 'c) semver \<Rightarrow> 'v \<Rightarrow> 'v \<Rightarrow> bool" where
  "Equal L v w = (Compare L v w = 0)"

section \<open>The program: install.go\<close>

subsection \<open>maxSatisfying\<close>

text \<open>
  The first loop of \<^verbatim>\<open>maxSatisfying\<close>: the first element of \<open>versions\<close> equal to
  \<^verbatim>\<open>strings.TrimPrefix(spec, "v")\<close>, or \<open>None\<close> when the loop ends without returning.
\<close>

fun exactMatch :: "string list \<Rightarrow> string \<Rightarrow> string option" where
  "exactMatch [] spec = None"
| "exactMatch (v # versions) spec =
     (if v = TrimPrefix spec ''v'' then Some v else exactMatch versions spec)"

text \<open>
  The second loop: \<open>maxVersion\<close> is \<open>None\<close> for Go's \<^verbatim>\<open>nil\<close>. A candidate that does
  not parse is skipped; one that satisfies the constraint replaces \<open>maxVersion\<close> when
  there is none yet or when it is strictly greater.
\<close>

fun maxLoop :: "('v, 'c) semver \<Rightarrow> 'c \<Rightarrow> string list \<Rightarrow> 'v option \<Rightarrow> 'v option" where
  "maxLoop L c [] maxVersion = maxVersion"
| "maxLoop L c (raw # versions) maxVersion =
     (case NewVersion L raw of
        None \<Rightarrow> maxLoop L c versions maxVersion
      | Some v \<Rightarrow>
          if Check L c v then
            (case maxVersion of
               None \<Rightarrow> maxLoop L c versions (Some v)
             | Some m \<Rightarrow>
                 if GreaterThan L v m then maxLoop L c versions (Some v)
                 else maxLoop L c versions maxVersion)
          else maxLoop L c versions maxVersion)"

definition maxSatisfying :: "('v, 'c) semver \<Rightarrow> string list \<Rightarrow> string \<Rightarrow> string" where
  "maxSatisfying L versions spec =
     (case exactMatch versions spec of
        Some v \<Rightarrow> v
      | None \<Rightarrow>
          (case NewConstraint L spec of
             None \<Rightarrow> ''''
           | Some c \<Rightarrow>
               (case maxLoop L c versions None of
                  None \<Rightarrow> ''''
                | Some maxVersion \<Rightarrow> String L maxVersion)))"

subsection \<open>sortVersions\<close>

text \<open>
  The first loop of \<^verbatim>\<open>sortVersions\<close>: the entries that parse, in their order; an
  entry that does not parse is skipped.
\<close>

fun parseVersions :: "('v, 'c) semver \<Rightarrow> string list \<Rightarrow> 'v list" where
  "parseVersions L [] = []"
| "parseVersions L (raw # versions) =
     (case NewVersion L raw of
        None \<Rightarrow> parseVersions L versions
      | Some v \<Rightarrow> v # parseVersions L versions)"

text \<open>
  The last loop, \<^verbatim>\<open>for i, v := range vs { versions[i] = v.String() }\<close>, from index
  \<open>i\<close> on. \<open>vs\<close> never has more elements than \<open>versions\<close> (sorting permutes it in
  place), so the index is always in range.
\<close>

fun writeBack :: "('v, 'c) semver \<Rightarrow> nat \<Rightarrow> 'v list \<Rightarrow> string list \<Rightarrow> string list" where
  "writeBack L i [] versions = versions"
| "writeBack L i (v # vs) versions = writeBack L (Suc i) vs (versions[i := String L v])"

text \<open>
  \<^verbatim>\<open>sort.Sort(sort.Reverse(semver.Collection(vs)))\<close>: the collection's \<^verbatim>\<open>Less(i, j)\<close>
  is \<^verbatim>\<open>vs[i].LessThan(vs[j])\<close> and \<^verbatim>\<open>sort.Reverse\<close> swaps its arguments. The
  function returns the slice as the in-place update leaves it.
\<close>

definition sortVersions :: "('v, 'c) semver \<Rightarrow> string list \<Rightarrow> string list" where
  "sortVersions L versions =
     writeBack L 0 (Sort L (\<lambda>a b. LessThan L b a) (parseVersions L versions)) versions"

subsection \<open>isValidVersion and isValidVersionConstraint\<close>

definition isValidVersion :: "('v, 'c) semver \<Rightarrow> string \<Rightarrow> bool" where
  "isValidVersion L version0 =
     (let version = TrimPrefix version0 ''v'';
          parts = Split (Split version CHR ''-'' ! 0) CHR ''.''
      in if length parts \<noteq> 3 then False
         else NewVersion L version \<noteq> None)"

definition isValidVersionConstraint :: "('v, 'c) semver \<Rightarrow> string \<Rightarrow> bool" where
  "isValidVersionConstraint L version = (NewConstraint L version \<noteq> None)"

section \<open>A model of the library\<close>

text \<open>
  Modelled from the spec: the packages \<^verbatim>\<open>github.com/Masterminds/semver/v3\<close> and
  \<^verbatim>\<open>sort\<close> are dependencies, not files of the repository. The definitions of this
  section follow the specification's data model: a Version has major, minor and patch
  numbers, an optional pre-release identifier of dot-separated segments and optional
  build metadata; precedence compares major, minor and patch numerically, puts a
  pre-release before the release of the same numbers and ignores build metadata; the
  lenient parser accepts the shorthand forms \<^verbatim>\<open>1.0\<close> and \<^verbatim>\<open>v1\<close>; a constraint is
  a space-separated conjunction of clauses with the operators \<^verbatim>\<open>=\<close>, \<^verbatim>\<open>>\<close>,
  \<^verbatim>\<open>>=\<close>, \<^verbatim>\<open><\<close>, \<^verbatim>\<open><=\<close>, \<^verbatim>\<open>~\<close>, \<^verbatim>\<open>^\<close> and the wildcard components
  \<^verbatim>\<open>x\<close>, \<^verbatim>\<open>X\<close>, \<^verbatim>\<open>*\<close>. Forms of the library the specification does not
  describe (\<^verbatim>\<open>||\<close>, comma separators, hyphen ranges, \<^verbatim>\<open>!=\<close>) are rejected by the
  model. The general theorems below hold for every library \<open>L\<close> that meets the stated
  contracts; the model serves to show that the contracts can be met and to evaluate
  the functions on concrete inputs.
\<close>

subsection \<open>Numbers\<close>

definition isDigit :: "char \<Rightarrow> bool" where
  "isDigit c = (c \<in> set ''0123456789'')"

definition digitVal :: "char \<Rightarrow> nat" where
  "digitVal c = of_char c - 48"

definition decimal :: "string \<Rightarrow> nat" where
  "decimal s = foldl (\<lambda>n c. 10 * n + digitVal c) 0 s"

text \<open>
  \<^verbatim>\<open>strconv.ParseUint(s, 10, 64)\<close>: a non-empty string of decimal digits whose value
  fits 64 bits; everything else is an error.
\<close>

definition ParseUint :: "string \<Rightarrow> nat option" where
  "ParseUint s =
     (if s \<noteq> [] \<and> list_all isDigit s \<and> int (decimal s) < 18446744073709551616
      then Some (decimal s) else None)"

text \<open>The verb \<^verbatim>\<open>%d\<close> of \<^verbatim>\<open>fmt\<close> on an unsigned number.\<close>

fun showNat :: "nat \<Rightarrow> string" where
  "showNat n =
     (if n < 10 then [''0123456789'' ! n]
      else showNat (n div 10) @ [''0123456789'' ! (n mod 10)])"

declare showNat.simps [simp del]

subsection \<open>Versions\<close>

text \<open>\<^verbatim>\<open>strings.Join\<close>, and the split of a string at the first occurrence of a byte.\<close>

fun Join :: "string list \<Rightarrow> string \<Rightarrow> string" where
  "Join [] sep = []"
| "Join [a] sep = a"
| "Join (a # b # elems) sep = a @ sep @ Join (b # elems) sep"

fun cut :: "char \<Rightarrow> string \<Rightarrow> string \<times> string option" where
  "cut sep [] = ([], None)"
| "cut sep (c # cs) =
     (if c = sep then ([], Some cs)
      else (case cut sep cs of (before, after) \<Rightarrow> (c # before, after)))"

text \<open>
  A segment of a pre-release identifier is numeric when \<^verbatim>\<open>ParseUint\<close> accepts it and
  alphanumeric otherwise.
\<close>

datatype seg = Num nat | Alnum string

record version =
  major :: nat
  minor :: nat
  patch :: nat
  pre :: "seg list"
  metadata :: string

definition allowed :: "char \<Rightarrow> bool" where
  "allowed c =
     (c \<in> set ''abcdefghijklmnopqrstuvwxyzABCDEFGHIJKLMNOPQRSTUVWXYZ-0123456789'')"

definition validPrePart :: "string \<Rightarrow> bool" where
  "validPrePart p =
     (p \<noteq> [] \<and> list_all allowed p
      \<and> \<not> (list_all isDigit p \<and> length p > 1 \<and> hd p = CHR ''0''))"

definition validMetaPart :: "string \<Rightarrow> bool" where
  "validMetaPart p = (p \<noteq> [] \<and> list_all allowed p)"

definition toSeg :: "string \<Rightarrow> seg" where
  "toSeg p = (case ParseUint p of Some n \<Rightarrow> Num n | None \<Rightarrow> Alnum p)"

fun segString :: "seg \<Rightarrow> string" where
  "segString (Num n) = showNat n"
| "segString (Alnum s) = s"

definition parsePre :: "string option \<Rightarrow> seg list option" where
  "parsePre p =
     (case p of
        None \<Rightarrow> Some []
      | Some q \<Rightarrow>
          if list_all validPrePart (Split q CHR ''.'') then Some (map toSeg (Split q CHR ''.''))
          else None)"

definition parseMeta :: "string option \<Rightarrow> string option" where
  "parseMeta m =
     (case m of
        None \<Rightarrow> Some []
      | Some q \<Rightarrow> if list_all validMetaPart (Split q CHR ''.'') then Some q else None)"

text \<open>
  The lenient parser: an optional \<^verbatim>\<open>v\<close>, one to three numbers separated by dots, an
  optional pre-release after the first \<^verbatim>\<open>-\<close> and optional build metadata after the
  first \<^verbatim>\<open>+\<close>. Missing minor and patch numbers are zero.
\<close>

definition semver_NewVersion :: "string \<Rightarrow> version option" where
  "semver_NewVersion s =
     (let bm = cut CHR ''+'' (TrimPrefix s ''v'');
          np = cut CHR ''-'' (fst bm);
          ns = map ParseUint (Split (fst np) CHR ''.'')
      in if length ns \<le> 3 \<and> list_all (\<lambda>n. n \<noteq> None) ns
            \<and> parsePre (snd np) \<noteq> None \<and> parseMeta (snd bm) \<noteq> None
         then Some \<lparr>major = the (ns ! 0),
                     minor = (if 1 < length ns then the (ns ! 1) else 0),
                     patch = (if 2 < length ns then the (ns ! 2) else 0),
                     pre = the (parsePre (snd np)),
                     metadata = the (parseMeta (snd bm))\<rparr>
         else None)"

definition semver_String :: "version \<Rightarrow> string" where
  "semver_String v =
     showNat (major v) @ ''.'' @ showNat (minor v) @ ''.'' @ showNat (patch v)
     @ (if pre v \<noteq> [] then ''-'' @ Join (map segString (pre v)) ''.'' else [])
     @ (if metadata v \<noteq> [] then ''+'' @ metadata v else [])"

subsection \<open>Precedence\<close>

definition compareSegment :: "nat \<Rightarrow> nat \<Rightarrow> int" where
  "compareSegment v w = (if v < w then - 1 else if v > w then 1 else 0)"

text \<open>
  Numeric segments compare by value and are lower than alphanumeric ones, which compare
  bytewise.
\<close>

fun comparePrePart :: "seg \<Rightarrow> seg \<Rightarrow> int" where
  "comparePrePart (Num a) (Num b) = (if a = b then 0 else if a > b then 1 else - 1)"
| "comparePrePart (Num a) (Alnum t) = - 1"
| "comparePrePart (Alnum s) (Num b) = 1"
| "comparePrePart (Alnum s) (Alnum t) = (if s = t then 0 else if s > t then 1 else - 1)"

fun comparePrerelease :: "seg list \<Rightarrow> seg list \<Rightarrow> int" where
  "comparePrerelease [] [] = 0"
| "comparePrerelease (s # ss) [] = 1"
| "comparePrerelease [] (t # ts) = - 1"
| "comparePrerelease (s # ss) (t # ts) =
     (if comparePrePart s t \<noteq> 0 then comparePrePart s t else comparePrerelease ss ts)"

definition semver_Compare :: "version \<Rightarrow> version \<Rightarrow> int" where
  "semver_Compare v w =
     (if compareSegment (major v) (major w) \<noteq> 0 then compareSegment (major v) (major w)
      else if compareSegment (minor v) (minor w) \<noteq> 0 then compareSegment (minor v) (minor w)
      else if compareSegment (patch v) (patch w) \<noteq> 0 then compareSegment (patch v) (patch w)
      else if pre v = [] \<and> pre w = [] then 0
      else if pre v = [] then 1
      else if pre w = [] then - 1
      else comparePrerelease (pre v) (pre w))"

subsection \<open>Constraints\<close>

datatype cop = OpEq | OpGt | OpGe | OpLt | OpLe | OpTilde | OpCaret

record constraint =
  oper :: cop
  con :: version
  minorDirty :: bool
  patchDirty :: bool
  dirty :: bool

definition parseOp :: "string \<Rightarrow> cop \<times> string" where
  "parseOp s =
     (if take 2 s = ''>='' then (OpGe, drop 2 s)
      else if take 2 s = ''<='' then (OpLe, drop 2 s)
      else if take 1 s = ''>'' then (OpGt, drop 1 s)
      else if take 1 s = ''<'' then (OpLt, drop 1 s)
      else if take 1 s = ''='' then (OpEq, drop 1 s)
      else if take 1 s = ''~'' then (OpTilde, drop 1 s)
      else if take 1 s = ''^'' then (OpCaret, drop 1 s)
      else (OpEq, s))"

definition isX :: "string \<Rightarrow> bool" where
  "isX p = (p = ''x'' \<or> p = ''X'' \<or> p = ''*'')"

text \<open>
  One clause: an operator and a version whose components may be missing or wildcards.
  A missing or wildcard component makes the clause dirty; it and the components after
  it count as zero.
\<close>

definition parseConstraint :: "string \<Rightarrow> constraint option" where
  "parseConstraint c =
     (let ot = parseOp c;
          bm = cut CHR ''+'' (TrimPrefix (snd ot) ''v'');
          np = cut CHR ''-'' (fst bm);
          comps = Split (fst np) CHR ''.'';
          wild = (\<lambda>k. length comps \<le> k \<or> isX (comps ! k));
          num = (\<lambda>k. the (ParseUint (comps ! k)))
      in if length comps \<le> 3 \<and> list_all (\<lambda>p. isX p \<or> ParseUint p \<noteq> None) comps
            \<and> parsePre (snd np) \<noteq> None \<and> parseMeta (snd bm) \<noteq> None
         then Some
           \<lparr>oper = fst ot,
            con = \<lparr>major = (if wild 0 then 0 else num 0),
                   minor = (if wild 0 \<or> wild 1 then 0 else num 1),
                   patch = (if wild 0 \<or> wild 1 \<or> wild 2 then 0 else num 2),
                   pre = the (parsePre (snd np)),
                   metadata = the (parseMeta (snd bm))\<rparr>,
            minorDirty = (\<not> wild 0 \<and> wild 1),
            patchDirty = (\<not> wild 0 \<and> \<not> wild 1 \<and> wild 2),
            dirty = (wild 0 \<or> wild 1 \<or> wild 2)\<rparr>
         else None)"

definition semver_NewConstraint :: "string \<Rightarrow> constraint list option" where
  "semver_NewConstraint s =
     (let clauses = filter (\<lambda>w. w \<noteq> []) (Split s CHR '' '')
      in if clauses \<noteq> [] \<and> list_all (\<lambda>w. parseConstraint w \<noteq> None) clauses
         then Some (map (\<lambda>w. the (parseConstraint w)) clauses)
         else None)"

definition constraintTilde :: "version \<Rightarrow> constraint \<Rightarrow> bool" where
  "constraintTilde v c =
     (if semver_Compare v (con c) < 0 then False
      else if major (con c) = 0 \<and> minor (con c) = 0 \<and> patch (con c) = 0
              \<and> \<not> minorDirty c \<and> \<not> patchDirty c then True
      else if major v \<noteq> major (con c) then False
      else if minor v \<noteq> minor (con c) \<and> \<not> minorDirty c then False
      else True)"

definition constraintCaret :: "version \<Rightarrow> constraint \<Rightarrow> bool" where
  "constraintCaret v c =
     (if semver_Compare v (con c) < 0 then False
      else if major (con c) > 0 \<or> minorDirty c then major v = major (con c)
      else if major (con c) = 0 \<and> major v > 0 then False
      else if minor (con c) > 0 \<or> patchDirty c then minor v = minor (con c)
      else if minor (con c) = 0 \<and> minor v > 0 then False
      else patch (con c) = patch v)"

definition constraintGreaterThan :: "version \<Rightarrow> constraint \<Rightarrow> bool" where
  "constraintGreaterThan v c =
     (if \<not> dirty c then semver_Compare v (con c) > 0
      else if major v > major (con c) then True
      else if major v < major (con c) then False
      else if minorDirty c then False
      else if patchDirty c then minor v > minor (con c)
      else semver_Compare v (con c) > 0)"

definition constraintLessThanEqual :: "version \<Rightarrow> constraint \<Rightarrow> bool" where
  "constraintLessThanEqual v c =
     (if \<not> dirty c then semver_Compare v (con c) \<le> 0
      else if major v > major (con c) then False
      else if major v = major (con c) \<and> minor v > minor (con c) \<and> \<not> minorDirty c then False
      else True)"

text \<open>
  A version with a pre-release satisfies no clause whose own version has none; this is
  why a range does not select \<^verbatim>\<open>1.0.0-alpha\<close>.
\<close>

definition checkClause :: "constraint \<Rightarrow> version \<Rightarrow> bool" where
  "checkClause c v =
     (if pre v \<noteq> [] \<and> pre (con c) = [] then False
      else case oper c of
        OpEq \<Rightarrow> if dirty c then constraintTilde v c else semver_Compare v (con c) = 0
      | OpGt \<Rightarrow> constraintGreaterThan v c
      | OpGe \<Rightarrow> semver_Compare v (con c) \<ge> 0
      | OpLt \<Rightarrow> semver_Compare v (con c) < 0
      | OpLe \<Rightarrow> constraintLessThanEqual v c
      | OpTilde \<Rightarrow> constraintTilde v c
      | OpCaret \<Rightarrow> constraintCaret v c)"

definition semver_Check :: "constraint list \<Rightarrow> version \<Rightarrow> bool" where
  "semver_Check cs v = list_all (\<lambda>c. checkClause c v) cs"

subsection \<open>Sorting\<close>

text \<open>
  \<^verbatim>\<open>sort.Sort\<close> promises a sorted permutation and no particular order among equal
  elements. On short slices it is an insertion sort, which the model takes for every
  length: each element moves left past the elements it is less than. \<open>insertRev\<close>
  works on the sorted part in reverse, nearest neighbour first.
\<close>

fun insertRev :: "('a \<Rightarrow> 'a \<Rightarrow> bool) \<Rightarrow> 'a \<Rightarrow> 'a list \<Rightarrow> 'a list" where
  "insertRev lt x [] = [x]"
| "insertRev lt x (y # ys) =
     (if lt x y then y # insertRev lt x ys else x # y # ys)"

definition sort_Sort :: "('a \<Rightarrow> 'a \<Rightarrow> bool) \<Rightarrow> 'a list \<Rightarrow> 'a list" where
  "sort_Sort lt xs = rev (foldl (\<lambda>sorted x. insertRev lt x sorted) [] xs)"

definition Semver :: "(version, constraint list) semver" where
  "Semver =
     \<lparr>NewVersion = semver_NewVersion, String = semver_String, Compare = semver_Compare,
      NewConstraint = semver_NewConstraint, Check = semver_Check, Sort = sort_Sort\<rparr>"

text \<open>A library that rejects every string, to show what does not depend on parsing.\<close>

definition rejecting :: "(unit, unit) semver" where
  "rejecting =
     \<lparr>NewVersion = (\<lambda>s. None), String = (\<lambda>v. ''''), Compare = (\<lambda>v w. 0),
      NewConstraint = (\<lambda>s. None), Check = (\<lambda>c v. False), Sort = (\<lambda>less xs. xs)\<rparr>"

section \<open>Properties\<close>

subsection \<open>The exact-match loop\<close>

lemma exactMatch_Some_iff:
  "exactMatch versions spec = Some v \<longleftrightarrow> v = TrimPrefix spec ''v'' \<and> v \<in> set versions"
  by (induction versions) auto

lemma exactMatch_None_iff:
  "exactMatch versions spec = None \<longleftrightarrow> TrimPrefix spec ''v'' \<notin> set versions"
  by (induction versions) auto

text \<open>
  C1. When the spec, with one leading \<^verbatim>\<open>v\<close> stripped, is an element of \<open>versions\<close>,
  \<open>maxSatisfying\<close> returns that element, whatever the library does with constraints and
  versions: the result is the same for every \<open>L\<close>, also for one that rejects every
  constraint.
\<close>

theorem maxSatisfying_exact_match:
  "TrimPrefix spec ''v'' \<in> set versions \<Longrightarrow>
     maxSatisfying L versions spec = TrimPrefix spec ''v''"
proof -
  assume "TrimPrefix spec ''v'' \<in> set versions"
  then have "exactMatch versions spec = Some (TrimPrefix spec ''v'')"
    by (simp add: exactMatch_Some_iff)
  then show ?thesis
    by (simp add: maxSatisfying_def)
qed

theorem maxSatisfying_exact_match_witness:
  "TrimPrefix ''1.0.0-alpha'' ''v'' \<in> set [''1.0.0-alpha''] \<and>
   maxSatisfying rejecting [''1.0.0-alpha''] ''1.0.0-alpha'' = ''1.0.0-alpha'' \<and>
   maxSatisfying rejecting [''1.0.0'', ''1.0.0-alpha''] ''v1.0.0-alpha'' = ''1.0.0-alpha''"
proof -
  have a: "TrimPrefix ''1.0.0-alpha'' ''v'' = ''1.0.0-alpha''"
    by (simp add: TrimPrefix_def)
  have b: "TrimPrefix ''v1.0.0-alpha'' ''v'' = ''1.0.0-alpha''"
    by (simp add: TrimPrefix_def)
  have h1: "TrimPrefix ''1.0.0-alpha'' ''v'' \<in> set [''1.0.0-alpha'']"
    by (simp add: a)
  have h2: "TrimPrefix ''v1.0.0-alpha'' ''v'' \<in> set [''1.0.0'', ''1.0.0-alpha'']"
    by (simp add: b)
  show ?thesis
    using h1 maxSatisfying_exact_match [OF h1, of rejecting]
      maxSatisfying_exact_match [OF h2, of rejecting]
    by (simp add: a b)
qed

end
